theory Spec2Isabelle
  imports Complex_Main "HOL-Library.Multiset"
begin

section \<open>The study statistics of routes/progress.js\<close>

text \<open>
  The development embeds the statistics code of the Express backend: the body of the
  \<^verbatim>\<open>GET /stats\<close> handler (the spec's \<open>computeStats\<close>), the body of the
  \<^verbatim>\<open>GET /subject/:subject\<close> handler and the helper \<open>getWeeklyActivity\<close>
  (the spec's \<open>bucketWeeklyActivity\<close>). The database queries are outside the embedding:
  the arrays they return are the inputs.
\<close>

subsection \<open>JavaScript numbers\<close>

text \<open>
  A finite double is idealised as a rational (sums and quotients are exact); the values
  a division by zero produces are kept apart, so that a \<open>NaN\<close> reaching the output is
  visible in the model.
\<close>

datatype jsnum = Fin rat | NaN | PosInf | NegInf

text \<open>\<^verbatim>\<open>a / b\<close> on two finite numbers.\<close>

definition js_div :: "rat \<Rightarrow> rat \<Rightarrow> jsnum" where
  "js_div a b =
     (if b = 0 then (if a = 0 then NaN else if 0 < a then PosInf else NegInf)
      else Fin (a / b))"

text \<open>\<^verbatim>\<open>x || 0\<close> on a number: \<open>NaN\<close> and \<open>0\<close> are the falsy numbers.\<close>

definition js_or_zero :: "jsnum \<Rightarrow> jsnum" where
  "js_or_zero x = (if x = NaN \<or> x = Fin 0 then Fin 0 else x)"

text \<open>
  \<^verbatim>\<open>field || 0\<close> on an optional Number field of a document: an absent field reads
  as \<open>undefined\<close>, which is falsy, and so is a stored \<open>0\<close>.
\<close>

definition field_or_zero :: "rat option \<Rightarrow> rat" where
  "field_or_zero f = (case f of None \<Rightarrow> 0 | Some d \<Rightarrow> (if d = 0 then 0 else d))"

text \<open>\<^verbatim>\<open>Math.round\<close>: the nearest integer, a tie going towards plus infinity.\<close>

definition Math_round :: "jsnum \<Rightarrow> jsnum" where
  "Math_round x = (case x of Fin q \<Rightarrow> Fin (of_int \<lfloor>q + 1 / 2\<rfloor>) | _ \<Rightarrow> x)"

text \<open>\<^verbatim>\<open>x * k\<close> and \<^verbatim>\<open>x / k\<close> for a finite constant \<open>k\<close>.\<close>

definition js_times :: "jsnum \<Rightarrow> rat \<Rightarrow> jsnum" where
  "js_times x k =
     (case x of
        Fin q \<Rightarrow> Fin (q * k)
      | NaN \<Rightarrow> NaN
      | PosInf \<Rightarrow> (if k = 0 then NaN else if 0 < k then PosInf else NegInf)
      | NegInf \<Rightarrow> (if k = 0 then NaN else if 0 < k then NegInf else PosInf))"

definition js_over :: "jsnum \<Rightarrow> rat \<Rightarrow> jsnum" where
  "js_over x k =
     (case x of
        Fin q \<Rightarrow> js_div q k
      | NaN \<Rightarrow> NaN
      | PosInf \<Rightarrow> (if 0 \<le> k then PosInf else NegInf)
      | NegInf \<Rightarrow> (if 0 \<le> k then NegInf else PosInf))"

subsection \<open>Documents\<close>

text \<open>
  The fields of a StudySession and of a ChatMessage document that the statistics read.
  \<open>duration\<close> and \<open>rating\<close> are Numbers that may be absent; \<open>createdAt\<close> is the
  timestamp Mongoose sets, a time value in milliseconds since the epoch.
\<close>

record session =
  s_subject :: string
  s_topic :: string
  s_duration :: "rat option"
  s_rating :: "rat option"
  s_createdAt :: int

record chat_message =
  m_role :: string
  m_subject :: string
  m_content :: string

subsection \<open>Array operations\<close>

text \<open>
  \<^verbatim>\<open>[...new Set(xs)]\<close>: the constructor adds the elements in order, adding a value
  already present changes nothing, and the spread lists the set in insertion order.
\<close>

fun set_add_all :: "'a list \<Rightarrow> 'a list \<Rightarrow> 'a list" where
  "set_add_all acc [] = acc"
| "set_add_all acc (x # xs) = set_add_all (if x \<in> set acc then acc else acc @ [x]) xs"

definition spread_set :: "'a list \<Rightarrow> 'a list" where
  "spread_set xs = set_add_all [] xs"

text \<open>
  \<^verbatim>\<open>xs.sort(cmp)\<close>: ECMAScript requires a stable sort, which for a comparator that is
  a total preorder leaves one possible result; insertion from the right computes it.
  An element moves behind another one only where \<open>cmp\<close> is positive.
\<close>

fun insert_by :: "('a \<Rightarrow> 'a \<Rightarrow> int) \<Rightarrow> 'a \<Rightarrow> 'a list \<Rightarrow> 'a list" where
  "insert_by cmp x [] = [x]"
| "insert_by cmp x (y # ys) =
     (if 0 < cmp x y then y # insert_by cmp x ys else x # y # ys)"

fun array_sort :: "('a \<Rightarrow> 'a \<Rightarrow> int) \<Rightarrow> 'a list \<Rightarrow> 'a list" where
  "array_sort cmp [] = []"
| "array_sort cmp (x # xs) = insert_by cmp x (array_sort cmp xs)"

text \<open>\<^verbatim>\<open>(a, b) => new Date(b.createdAt) - new Date(a.createdAt)\<close>\<close>

definition by_createdAt_desc :: "session \<Rightarrow> session \<Rightarrow> int" where
  "by_createdAt_desc a b = s_createdAt b - s_createdAt a"

text \<open>\<^verbatim>\<open>xs.reduce((sum, s) => sum + (s.duration || 0), 0)\<close> and the same for ratings.\<close>

definition sum_duration :: "session list \<Rightarrow> rat" where
  "sum_duration xs = foldl (\<lambda>sum s. sum + field_or_zero (s_duration s)) 0 xs"

definition sum_rating :: "session list \<Rightarrow> rat" where
  "sum_rating xs = foldl (\<lambda>sum s. sum + field_or_zero (s_rating s)) 0 xs"

subsection \<open>Dates and the local time zone\<close>

text \<open>
  A Date is its time value. The zone of the server is the environment of the code: as in
  ECMAScript, \<open>LocalTZA t isUTC\<close> is the offset of local time from UTC in milliseconds,
  at the UTC instant \<open>t\<close> when \<open>isUTC\<close> holds and at the local time \<open>t\<close> otherwise.
  Time values are integers in milliseconds since the epoch. A clock reading and the
  \<open>createdAt\<close> that Mongoose stamps on every document are valid Dates far inside the
  range of time values (about 275760 years either side of the epoch), so the clipping
  of a time value out of that range to an invalid Date is left out.
\<close>

type_synonym tza = "int \<Rightarrow> bool \<Rightarrow> int"

definition msPerDay :: int where
  "msPerDay = 24 * 60 * 60 * 1000"

definition LocalTime :: "tza \<Rightarrow> int \<Rightarrow> int" where
  "LocalTime z t = t + z t True"

definition UTC :: "tza \<Rightarrow> int \<Rightarrow> int" where
  "UTC z t = t - z t False"

definition Day :: "int \<Rightarrow> int" where
  "Day t = t div msPerDay"

text \<open>
  \<^verbatim>\<open>new Date(date.getFullYear(), date.getMonth(), date.getDate())\<close>: the three getters
  read the civil date of the local time of \<open>date\<close>, and the constructor returns the
  instant of local midnight on that civil date. The civil date and the day number
  \<open>Day (LocalTime z date)\<close> determine each other, so the round trip is taken on the
  day number.
\<close>

definition local_midnight :: "tza \<Rightarrow> int \<Rightarrow> int" where
  "local_midnight z date = UTC z (Day (LocalTime z date) * msPerDay)"

text \<open>A zone that keeps one offset, \<open>fixed_zone 0\<close> being UTC.\<close>

definition fixed_zone :: "int \<Rightarrow> tza" where
  "fixed_zone c = (\<lambda>t isUTC. c)"

text \<open>
  \<^verbatim>\<open>d.toISOString().split('T')[0]\<close>: the civil date in UTC of the instant, as
  \<open>YYYY-MM-DD\<close>, the year with a sign and six digits outside \<open>0..9999\<close>.
\<close>

definition civil_from_days :: "int \<Rightarrow> int \<times> int \<times> int" where
  "civil_from_days n =
     (let z = n + 719468;
          era = z div 146097;
          doe = z - era * 146097;
          yoe = (doe - doe div 1460 + doe div 36524 - doe div 146096) div 365;
          doy = doe - (365 * yoe + yoe div 4 - yoe div 100);
          mp = (5 * doy + 2) div 153;
          d = doy - (153 * mp + 2) div 5 + 1;
          m = (if mp < 10 then mp + 3 else mp - 9);
          y = yoe + era * 400 + (if m \<le> 2 then 1 else 0)
      in (y, m, d))"

definition digit :: "int \<Rightarrow> char" where
  "digit n = ''0123456789'' ! nat (n mod 10)"

fun digits :: "nat \<Rightarrow> int \<Rightarrow> string" where
  "digits 0 n = []"
| "digits (Suc k) n = digits k (n div 10) @ [digit n]"

definition iso_date :: "int \<Rightarrow> string" where
  "iso_date t =
     (case civil_from_days (Day t) of
        (y, m, d) \<Rightarrow>
          (if 0 \<le> y \<and> y \<le> 9999 then digits 4 y
           else (if y < 0 then ''-'' else ''+'') @ digits 6 \<bar>y\<bar>)
          @ ''-'' @ digits 2 m @ ''-'' @ digits 2 d)"

subsection \<open>getWeeklyActivity\<close>

record week_bucket =
  wb_date :: string
  wb_sessions :: nat
  wb_time :: rat

text \<open>The constants of one round of the loop, for the loop variable \<open>i\<close>.\<close>

definition dayStart :: "tza \<Rightarrow> int \<Rightarrow> nat \<Rightarrow> int" where
  "dayStart z now i = local_midnight z (now - int i * 24 * 60 * 60 * 1000)"

definition dayEnd :: "tza \<Rightarrow> int \<Rightarrow> nat \<Rightarrow> int" where
  "dayEnd z now i = dayStart z now i + 24 * 60 * 60 * 1000"

definition daySessions :: "tza \<Rightarrow> int \<Rightarrow> session list \<Rightarrow> nat \<Rightarrow> session list" where
  "daySessions z now sessions i =
     filter (\<lambda>session. dayStart z now i \<le> s_createdAt session
                      \<and> s_createdAt session < dayEnd z now i) sessions"

definition weekly_entry :: "tza \<Rightarrow> int \<Rightarrow> session list \<Rightarrow> nat \<Rightarrow> week_bucket" where
  "weekly_entry z now sessions i =
     \<lparr> wb_date = iso_date (dayStart z now i),
       wb_sessions = length (daySessions z now sessions i),
       wb_time = sum_duration (daySessions z now sessions i) \<rparr>"

text \<open>\<^verbatim>\<open>for (let i = 6; i >= 0; i--) { ...; weeklyData.push(...) }\<close>\<close>

fun weekly_loop ::
  "tza \<Rightarrow> int \<Rightarrow> session list \<Rightarrow> nat \<Rightarrow> week_bucket list \<Rightarrow> week_bucket list" where
  "weekly_loop z now sessions 0 weeklyData = weeklyData @ [weekly_entry z now sessions 0]"
| "weekly_loop z now sessions (Suc i) weeklyData =
     weekly_loop z now sessions i (weeklyData @ [weekly_entry z now sessions (Suc i)])"

text \<open>\<open>now\<close> is the clock reading of \<^verbatim>\<open>new Date()\<close>.\<close>

definition getWeeklyActivity :: "tza \<Rightarrow> int \<Rightarrow> session list \<Rightarrow> week_bucket list" where
  "getWeeklyActivity z now sessions = weekly_loop z now sessions 6 []"

text \<open>
  The offsets that round \<open>i\<close> of the loop reads from the zone: one at the instant
  \<open>now - i * 24h\<close>, for the getters, and one at the local midnight that the constructor
  turns into an instant. The zone is steady over the week when all seven rounds read
  the offset \<open>c\<close>, that is, when no transition of the zone touches the window.
\<close>

definition steady_round :: "tza \<Rightarrow> int \<Rightarrow> int \<Rightarrow> nat \<Rightarrow> bool" where
  "steady_round z now c i =
     (z (now - int i * msPerDay) True = c \<and>
      z (Day (LocalTime z (now - int i * msPerDay)) * msPerDay) False = c)"

definition steady :: "tza \<Rightarrow> int \<Rightarrow> int \<Rightarrow> bool" where
  "steady z now c = (\<forall>i \<in> {0..6}. steady_round z now c i)"

subsection \<open>The statistics of GET /stats\<close>

record subject_stat =
  ss_subject :: string
  ss_sessions :: nat
  ss_totalTime :: rat
  ss_questions :: nat
  ss_averageRating :: jsnum

record stats =
  st_period :: string
  st_totalStudyTime :: rat
  st_totalSessions :: nat
  st_totalQuestions :: nat
  st_subjectsStudied :: nat
  st_averageSessionLength :: jsnum
  st_subjectStats :: "subject_stat list"
  st_recentSessions :: "session list"
  st_weeklyActivity :: "week_bucket list"

text \<open>The callback of \<^verbatim>\<open>subjectsStudied.map\<close>.\<close>

definition subject_entry :: "session list \<Rightarrow> chat_message list \<Rightarrow> string \<Rightarrow> subject_stat" where
  "subject_entry sessions chatMessages subject =
     (let subjectSessions = filter (\<lambda>s. s_subject s = subject) sessions;
          subjectTime = sum_duration subjectSessions;
          subjectQuestions = length (filter (\<lambda>msg. m_subject msg = subject) chatMessages)
      in \<lparr> ss_subject = subject,
           ss_sessions = length subjectSessions,
           ss_totalTime = subjectTime,
           ss_questions = subjectQuestions,
           ss_averageRating =
             js_or_zero (js_div (sum_rating subjectSessions)
                                (of_nat (length subjectSessions))) \<rparr>)"

text \<open>
  The handler from "Calculate statistics" to the response. \<^verbatim>\<open>sessions.sort\<close> sorts
  the array in place, so the result is the response together with the two arrays as
  the handler leaves them; everything after the sort reads the sorted array.
\<close>

definition computeStats ::
  "tza \<Rightarrow> int \<Rightarrow> string \<Rightarrow> session list \<Rightarrow> chat_message list
     \<Rightarrow> stats \<times> session list \<times> chat_message list" where
  "computeStats z now period sessions chatMessages =
     (let totalStudyTime = sum_duration sessions;
          totalQuestions = length (filter (\<lambda>msg. m_role msg = ''user'') chatMessages);
          subjectsStudied = spread_set (map s_subject sessions);
          averageSessionLength =
            (if 0 < length sessions
             then js_div totalStudyTime (of_nat (length sessions)) else Fin 0);
          subjectStats = map (subject_entry sessions chatMessages) subjectsStudied;
          sessions' = array_sort by_createdAt_desc sessions;
          recentSessions = take 5 sessions'
      in (\<lparr> st_period = period,
             st_totalStudyTime = totalStudyTime,
             st_totalSessions = length sessions',
             st_totalQuestions = totalQuestions,
             st_subjectsStudied = length subjectsStudied,
             st_averageSessionLength = Math_round averageSessionLength,
             st_subjectStats = subjectStats,
             st_recentSessions = recentSessions,
             st_weeklyActivity = getWeeklyActivity z now sessions' \<rparr>,
          sessions', chatMessages))"

subsection \<open>The statistics of GET /subject/:subject\<close>

record subject_progress =
  sp_subject :: string
  sp_totalSessions :: nat
  sp_totalTime :: rat
  sp_topicsCovered :: nat
  sp_averageRating :: jsnum
  sp_sessions :: "session list"
  sp_topics :: "string list"

text \<open>\<open>sessions\<close> is what the query for the subject returned.\<close>

definition subjectProgress :: "string \<Rightarrow> session list \<Rightarrow> subject_progress" where
  "subjectProgress subject sessions =
     (let topics = spread_set (map s_topic sessions);
          totalTime = sum_duration sessions;
          averageRating =
            js_or_zero (js_div (sum_rating sessions) (of_nat (length sessions)))
      in \<lparr> sp_subject = subject,
           sp_totalSessions = length sessions,
           sp_totalTime = totalTime,
           sp_topicsCovered = length topics,
           sp_averageRating = js_over (Math_round (js_times averageRating 10)) 10,
           sp_sessions = sessions,
           sp_topics = topics \<rparr>)"

subsection \<open>The spec's average rating and concrete inputs\<close>

text \<open>
  The spec's words for \<open>averageRating\<close>, to be compared with the code: the mean of the
  non-null ratings among the sessions of the subject, and 0 if none is rated.
\<close>

definition spec_averageRating :: "session list \<Rightarrow> string \<Rightarrow> rat" where
  "spec_averageRating sessions subject =
     (let ratings = List.map_filter s_rating (filter (\<lambda>s. s_subject s = subject) sessions)
      in if ratings = [] then 0 else sum_list ratings / of_nat (length ratings))"

abbreviation newer_first :: "session list \<Rightarrow> bool" where
  "newer_first \<equiv> sorted_wrt (\<lambda>a b. s_createdAt b \<le> s_createdAt a)"

definition study :: "string \<Rightarrow> rat option \<Rightarrow> rat option \<Rightarrow> int \<Rightarrow> session" where
  "study subject duration rating createdAt =
     \<lparr> s_subject = subject, s_topic = ''topic'', s_duration = duration, s_rating = rating,
       s_createdAt = createdAt \<rparr>"

text \<open>The scenario of the spec's section 8.\<close>

definition scenario_sessions :: "session list" where
  "scenario_sessions =
     [study ''DSA'' (Some 30) (Some 4) 1000, study ''DSA'' (Some 60) (Some 2) 3000,
      study ''OS'' (Some 45) None 2000]"

definition scenario_messages :: "chat_message list" where
  "scenario_messages =
     [\<lparr> m_role = ''user'', m_subject = ''DSA'', m_content = ''What is a heap?'' \<rparr>,
      \<lparr> m_role = ''assistant'', m_subject = ''DSA'', m_content = ''A heap is a tree.'' \<rparr>,
      \<lparr> m_role = ''user'', m_subject = ''OS'', m_content = ''What is paging?'' \<rparr>]"

definition unsorted_pair :: "session list" where
  "unsorted_pair = [study ''DSA'' (Some 30) (Some 4) 1000, study ''OS'' (Some 45) None 2000]"

definition half_rated :: "session list" where
  "half_rated = [study ''DSA'' (Some 30) (Some 4) 1000, study ''DSA'' (Some 60) None 2000]"

definition odd_total :: "session list" where
  "odd_total = [study ''DSA'' (Some 30) (Some 4) 1000, study ''DSA'' (Some 45) (Some 5) 2000]"

definition seven_sessions :: "session list" where
  "seven_sessions =
     [study ''DSA'' (Some 10) None 4000, study ''OS'' (Some 20) None 1000,
      study ''CN'' (Some 30) None 7000, study ''DSA'' (Some 40) None 2000,
      study ''SE'' (Some 50) None 6000, study ''AI'' (Some 60) None 3000,
      study ''DBMS'' (Some 70) None 5000]"

text \<open>
  Europe/Berlin around the end of summer time in 2024: the offset is two hours until
  2024-10-27T01:00:00Z and one hour from then on. Day 20023 is 2024-10-27. A local time
  that occurs twice is read with the offset before the transition, as ECMAScript has it.
  \<open>berlin_now\<close> is 23:30 local time on that day, and \<open>noon_session\<close> was created at
  12:00 local time on that day.
\<close>

definition berlin :: tza where
  "berlin = (\<lambda>t isUTC.
     if isUTC then (if t < 20023 * msPerDay + 1 * 3600000 then 7200000 else 3600000)
     else (if t < 20023 * msPerDay + 3 * 3600000 then 7200000 else 3600000))"

definition berlin_now :: int where
  "berlin_now = 20023 * msPerDay + 22 * 3600000 + 30 * 60000"

definition noon_session :: session where
  "noon_session = \<lparr> s_subject = ''DSA'', s_topic = ''Graphs'', s_duration = Some 30,
     s_rating = Some 4, s_createdAt = 20023 * msPerDay + 11 * 3600000 \<rparr>"

text \<open>
  Asia/Kolkata, five and a half hours ahead of UTC all year; \<open>india_now\<close> is
  2024-01-10T06:30:00Z, noon local time (day 19732 is 2024-01-10).
\<close>

definition india :: tza where
  "india = fixed_zone 19800000"

definition india_now :: int where
  "india_now = 19732 * msPerDay + 6 * 3600000 + 30 * 60000"

text \<open>
  America/New_York in 2024: five hours behind UTC, and four hours behind from
  2024-03-10T07:00:00Z to 2024-11-03T06:00:00Z (days 19792 and 20030). A local time that
  is skipped or occurs twice is read with the offset before the transition.
  \<open>india_now\<close> is 01:30 local time of 2024-01-10 there.
\<close>

definition new_york :: tza where
  "new_york = (\<lambda>t isUTC.
     if isUTC then
       (if t < 19792 * msPerDay + 7 * 3600000 then - 18000000
        else if t < 20030 * msPerDay + 6 * 3600000 then - 14400000 else - 18000000)
     else
       (if t < 19792 * msPerDay + 3 * 3600000 then - 18000000
        else if t < 20030 * msPerDay + 2 * 3600000 then - 14400000 else - 18000000))"

text \<open>
  Ten days after \<open>berlin_now\<close>, 23:30 local time of 2024-11-06 in Berlin, with two
  sessions of that week and the session of 2024-10-27.
\<close>

definition berlin_later :: int where
  "berlin_later = berlin_now + 10 * msPerDay"

definition november_week :: "session list" where
  "november_week =
     [study ''DSA'' (Some 30) (Some 4) (berlin_later - 1000),
      study ''OS'' (Some 45) None (berlin_later - 3 * msPerDay),
      noon_session]"

definition this_week :: "session list" where
  "this_week =
     [study ''DSA'' (Some 30) (Some 4) (india_now - 1000),
      study ''OS'' (Some 45) None (india_now - 3 * msPerDay),
      study ''CN'' (Some 45) None (india_now - 30 * msPerDay)]"


section \<open>Basic facts about the embedding\<close>

subsection \<open>Numbers\<close>

lemma field_or_zero_case: "field_or_zero f = (case f of None \<Rightarrow> 0 | Some d \<Rightarrow> d)"
  by (simp add: field_or_zero_def split: option.split)

lemma foldl_plus_sum_list:
  "foldl (\<lambda>sum s. sum + f s) a xs = a + sum_list (map f xs)"
  for a :: rat
  by (induction xs arbitrary: a) (simp_all add: add.assoc)

lemma sum_duration_sum_list:
  "sum_duration xs = (\<Sum>s\<leftarrow>xs. case s_duration s of None \<Rightarrow> 0 | Some d \<Rightarrow> d)"
  by (simp add: sum_duration_def foldl_plus_sum_list field_or_zero_case)

lemma sum_rating_sum_list:
  "sum_rating xs = (\<Sum>s\<leftarrow>xs. case s_rating s of None \<Rightarrow> 0 | Some d \<Rightarrow> d)"
  by (simp add: sum_rating_def foldl_plus_sum_list field_or_zero_case)

lemma floor_half: "\<lfloor>1 / 2 :: rat\<rfloor> = 0"
  by (rule floor_unique) simp_all

lemma Math_round_zero: "Math_round (Fin 0) = Fin 0"
  by (simp add: Math_round_def floor_half)

lemma js_or_zero_Fin: "js_or_zero (Fin q) = Fin q"
  by (simp add: js_or_zero_def)

lemma js_div_of_nat: "0 < n \<Longrightarrow> js_div a (of_nat n) = Fin (a / of_nat n)"
  by (simp add: js_div_def)

lemma round_to_tenth:
  "js_over (Math_round (js_times (Fin q) 10)) 10 = Fin (of_int \<lfloor>q * 10 + 1 / 2\<rfloor> / 10)"
  by (simp add: js_times_def Math_round_def js_over_def js_div_def)

text \<open>The quotient \<^verbatim>\<open>sum / length || 0\<close> of both handlers.\<close>

lemma average_nonempty:
  "xs \<noteq> [] \<Longrightarrow> js_or_zero (js_div (sum_rating xs) (of_nat (length xs))) =
     Fin ((\<Sum>s\<leftarrow>xs. case s_rating s of None \<Rightarrow> 0 | Some r \<Rightarrow> r) / of_nat (length xs))"
  by (simp add: js_div_of_nat js_or_zero_Fin sum_rating_sum_list)

lemma average_empty:
  "js_or_zero (js_div (sum_rating []) (of_nat (length ([] :: session list)))) = Fin 0"
  by (simp add: js_div_def js_or_zero_def sum_rating_def)

lemma average_finite: "\<exists>q. js_or_zero (js_div (sum_rating xs) (of_nat (length xs))) = Fin q"
proof (cases "xs = []")
  case True
  then show ?thesis using average_empty by simp
next
  case False
  then show ?thesis by (simp add: average_nonempty)
qed

lemma sum_none_rated:
  "\<forall>s \<in> set xs. s_rating s = None \<Longrightarrow>
     (\<Sum>s\<leftarrow>xs. case s_rating s of None \<Rightarrow> 0 | Some r \<Rightarrow> r) = (0 :: rat)"
  by (induction xs) auto

lemma map_filter_all_rated:
  "\<forall>s \<in> set xs. s_rating s \<noteq> None \<Longrightarrow>
     List.map_filter s_rating xs = map (\<lambda>s. case s_rating s of None \<Rightarrow> 0 | Some r \<Rightarrow> r) xs"
  by (induction xs) (auto simp: map_filter_simps)

subsection \<open>The set of subjects\<close>

lemma set_set_add_all: "set (set_add_all acc xs) = set acc \<union> set xs"
  by (induction xs arbitrary: acc) auto

lemma distinct_set_add_all: "distinct acc \<Longrightarrow> distinct (set_add_all acc xs)"
  by (induction xs arbitrary: acc) auto

lemma set_spread_set: "set (spread_set xs) = set xs"
  by (simp add: spread_set_def set_set_add_all)

lemma distinct_spread_set: "distinct (spread_set xs)"
  by (simp add: spread_set_def distinct_set_add_all)

subsection \<open>The sort\<close>

lemma mset_insert_by: "mset (insert_by cmp x ys) = add_mset x (mset ys)"
  by (induction ys) auto

lemma mset_array_sort: "mset (array_sort cmp xs) = mset xs"
  by (induction xs) (auto simp: mset_insert_by)

lemma set_insert_by: "set (insert_by cmp x ys) = insert x (set ys)"
  by (induction ys) auto

lemma length_array_sort: "length (array_sort cmp xs) = length xs"
  using mset_array_sort [of cmp xs] by (metis size_mset)

lemma newer_first_insert_by:
  "newer_first ys \<Longrightarrow> newer_first (insert_by by_createdAt_desc x ys)"
  by (induction ys) (auto simp: set_insert_by by_createdAt_desc_def)

lemma newer_first_array_sort: "newer_first (array_sort by_createdAt_desc xs)"
  by (induction xs) (auto simp: newer_first_insert_by)

text \<open>Stability: the sessions of one instant keep their order.\<close>

lemma filter_insert_by_createdAt:
  "filter (\<lambda>s. s_createdAt s = t) (insert_by by_createdAt_desc x ys) =
     filter (\<lambda>s. s_createdAt s = t) (x # ys)"
  by (induction ys) (auto simp: by_createdAt_desc_def)

lemma filter_array_sort_createdAt:
  "filter (\<lambda>s. s_createdAt s = t) (array_sort by_createdAt_desc xs) =
     filter (\<lambda>s. s_createdAt s = t) xs"
  by (induction xs) (auto simp: filter_insert_by_createdAt)

subsection \<open>The fields of the response\<close>

lemma recentSessions_take:
  "st_recentSessions (fst (computeStats z now period ss cs)) =
     take 5 (array_sort by_createdAt_desc ss)"
  by (simp add: computeStats_def Let_def)

lemma subjectStats_map:
  "st_subjectStats (fst (computeStats z now period ss cs)) =
     map (subject_entry ss cs) (spread_set (map s_subject ss))"
  by (simp add: computeStats_def Let_def)

lemma totals_of_stats:
  "st_totalSessions (fst (computeStats z now period ss cs)) = length ss"
  "st_totalStudyTime (fst (computeStats z now period ss cs)) = sum_duration ss"
  by (simp_all add: computeStats_def Let_def length_array_sort)

lemma subject_of_entries:
  "map ss_subject (map (subject_entry ss cs) ds) = ds"
  by (induction ds) (simp_all add: subject_entry_def Let_def)

lemma averageRating_entry:
  "ss_averageRating (subject_entry ss cs subject) =
     js_or_zero (js_div (sum_rating (filter (\<lambda>s. s_subject s = subject) ss))
                        (of_nat (length (filter (\<lambda>s. s_subject s = subject) ss))))"
  by (simp add: subject_entry_def Let_def)

lemma entry_for_subject:
  "distinct ds \<Longrightarrow> a \<in> set ds \<Longrightarrow>
     filter (\<lambda>e. ss_subject e = a) (map (subject_entry ss cs) ds) = [subject_entry ss cs a]"
proof (induction ds)
  case Nil
  then show ?case by simp
next
  case (Cons d ds)
  have name: "ss_subject (subject_entry ss cs x) = x" for x
    by (simp add: subject_entry_def Let_def)
  show ?case
  proof (cases "a = d")
    case True
    with Cons.prems have "a \<notin> set ds" by simp
    then have "filter (\<lambda>e. ss_subject e = a) (map (subject_entry ss cs) ds) = []"
      by (auto simp: filter_empty_conv name)
    with True show ?thesis by (simp add: name)
  next
    case False
    with Cons show ?thesis by (simp add: name)
  qed
qed

subsection \<open>Sums over the groups of a list\<close>

lemma sum_list_indicator:
  fixes v :: "'b::comm_monoid_add"
  shows "distinct ds \<Longrightarrow> (\<Sum>d\<leftarrow>ds. if a = d then v else 0) = (if a \<in> set ds then v else 0)"
  by (induction ds) auto

lemma sum_list_by_key:
  fixes g :: "'a \<Rightarrow> 'b::comm_monoid_add"
  assumes "distinct ds" and "f ` set xs \<subseteq> set ds"
  shows "(\<Sum>d\<leftarrow>ds. \<Sum>x\<leftarrow>filter (\<lambda>x. f x = d) xs. g x) = (\<Sum>x\<leftarrow>xs. g x)"
  using assms(2)
proof (induction xs)
  case Nil
  then show ?case by simp
next
  case (Cons x xs)
  have "(\<Sum>d\<leftarrow>ds. \<Sum>y\<leftarrow>filter (\<lambda>y. f y = d) (x # xs). g y) =
        (\<Sum>d\<leftarrow>ds. (if f x = d then g x else 0) + (\<Sum>y\<leftarrow>filter (\<lambda>y. f y = d) xs. g y))"
    by (intro arg_cong [where f = sum_list] map_cong) auto
  also have "\<dots> = (\<Sum>d\<leftarrow>ds. if f x = d then g x else 0)
                    + (\<Sum>d\<leftarrow>ds. \<Sum>y\<leftarrow>filter (\<lambda>y. f y = d) xs. g y)"
    by (simp add: sum_list_addf)
  also have "\<dots> = g x + (\<Sum>y\<leftarrow>xs. g y)"
    using Cons assms(1) by (simp add: sum_list_indicator)
  finally show ?case by simp
qed

lemma sum_list_ones: "(\<Sum>x\<leftarrow>xs. Suc 0) = length xs"
  by (induction xs) simp_all

lemma count_split:
  "(\<And>x. \<not> (P x \<and> Q x)) \<Longrightarrow>
     length (filter P xs) + length (filter Q xs) = length (filter (\<lambda>x. P x \<or> Q x) xs)"
  by (induction xs) auto

lemma count_by_day:
  fixes d :: "'a \<Rightarrow> int"
  shows "(\<Sum>k\<leftarrow>[0..<n]. length (filter (\<lambda>s. d s = a + int k) ss)) =
           length (filter (\<lambda>s. a \<le> d s \<and> d s < a + int n) ss)"
proof (induction n)
  case 0
  then show ?case by simp
next
  case (Suc n)
  have "length (filter (\<lambda>s. a \<le> d s \<and> d s < a + int n) ss)
          + length (filter (\<lambda>s. d s = a + int n) ss) =
        length (filter (\<lambda>s. (a \<le> d s \<and> d s < a + int n) \<or> d s = a + int n) ss)"
    by (rule count_split) auto
  also have "(\<lambda>s. (a \<le> d s \<and> d s < a + int n) \<or> d s = a + int n) =
             (\<lambda>s. a \<le> d s \<and> d s < a + int (Suc n))"
    by auto
  finally show ?case
    using Suc.IH by simp
qed

subsection \<open>Days\<close>

lemma msPerDay_pos: "0 < msPerDay"
  by (simp add: msPerDay_def)

lemma div_eq_iff_bounds:
  fixes t n D :: int
  assumes "0 < D"
  shows "t div D = n \<longleftrightarrow> n * D \<le> t \<and> t < (n + 1) * D"
proof
  assume "t div D = n"
  moreover have "t = D * (t div D) + t mod D"
    by simp
  moreover have "0 \<le> t mod D" "t mod D < D"
    using assms by simp_all
  ultimately show "n * D \<le> t \<and> t < (n + 1) * D"
    by (smt (verit) distrib_right mult.commute mult_cancel_right2)
next
  assume b: "n * D \<le> t \<and> t < (n + 1) * D"
  have "t = D * n + (t - n * D)"
    by simp
  moreover have "0 \<le> t - n * D"
    using b by simp
  moreover have "t - n * D < D"
    using b by (simp add: distrib_right)
  ultimately show "t div D = n"
    by (rule int_div_pos_eq)
qed

lemma Day_eq_iff: "Day t = n \<longleftrightarrow> n * msPerDay \<le> t \<and> t < (n + 1) * msPerDay"
  unfolding Day_def by (rule div_eq_iff_bounds [OF msPerDay_pos])

lemma Day_bounds: "Day t * msPerDay \<le> t \<and> t < (Day t + 1) * msPerDay"
  using Day_eq_iff [of t "Day t"] by simp

lemma Day_ge_iff: "n \<le> Day t \<longleftrightarrow> n * msPerDay \<le> t"
proof
  assume "n \<le> Day t"
  then have "n * msPerDay \<le> Day t * msPerDay"
    using msPerDay_pos by (simp add: mult_right_mono)
  then show "n * msPerDay \<le> t"
    using Day_bounds [of t] by linarith
next
  assume "n * msPerDay \<le> t"
  then have "n * msPerDay < (Day t + 1) * msPerDay"
    using Day_bounds [of t] by linarith
  then have "n < Day t + 1"
    using msPerDay_pos by (simp add: mult_less_cancel_right_pos)
  then show "n \<le> Day t"
    by simp
qed

lemma Day_less_iff: "Day t < n \<longleftrightarrow> t < n * msPerDay"
  using Day_ge_iff [of n t] by linarith

lemma Day_mult: "Day (n * msPerDay) = n"
  using msPerDay_pos by (simp add: Day_def)

lemma Day_small: "0 \<le> t \<Longrightarrow> t < msPerDay \<Longrightarrow> Day t = 0"
  by (simp add: Day_def)

lemma Day_shift: "Day (t - int i * msPerDay) = Day t - int i"
proof -
  have "t - int i * msPerDay = t + (- int i) * msPerDay"
    by simp
  moreover have "(t + (- int i) * msPerDay) div msPerDay = - int i + t div msPerDay"
    using msPerDay_pos by (intro div_mult_self1) simp
  ultimately show ?thesis
    by (simp add: Day_def)
qed

lemma iso_date_Day: "iso_date t = iso_date (Day t * msPerDay)"
  by (simp add: iso_date_def Day_mult)

subsection \<open>The loop of getWeeklyActivity\<close>

lemma upt_7: "[0..<7] = [0, 1, 2, 3, 4, 5, 6 :: nat]"
  by code_simp

lemma weekly_loop_map:
  "weekly_loop z now ss n acc = acc @ map (weekly_entry z now ss) (rev [0..<Suc n])"
  by (induction n arbitrary: acc) simp_all

lemma getWeeklyActivity_unfold:
  "getWeeklyActivity z now ss =
     [weekly_entry z now ss 6, weekly_entry z now ss 5, weekly_entry z now ss 4,
      weekly_entry z now ss 3, weekly_entry z now ss 2, weekly_entry z now ss 1,
      weekly_entry z now ss 0]"
proof -
  have "getWeeklyActivity z now ss = map (weekly_entry z now ss) (rev [0..<7])"
    by (simp add: getWeeklyActivity_def weekly_loop_map eval_nat_numeral)
  then show ?thesis
    by (simp add: upt_7)
qed

subsection \<open>A zone with one offset\<close>

lemma dayStart_msPerDay: "dayStart z now i = local_midnight z (now - int i * msPerDay)"
  by (simp add: dayStart_def msPerDay_def algebra_simps)

lemma dayEnd_msPerDay: "dayEnd z now i = dayStart z now i + msPerDay"
  by (simp add: dayEnd_def msPerDay_def)

lemma dayStart_fixed:
  "dayStart (fixed_zone c) now i = (Day (now + c) - int i) * msPerDay - c"
proof -
  have "Day (now - int i * msPerDay + c) = Day (now + c - int i * msPerDay)"
    by (simp add: algebra_simps)
  also have "\<dots> = Day (now + c) - int i"
    by (rule Day_shift)
  finally show ?thesis
    unfolding dayStart_msPerDay local_midnight_def UTC_def LocalTime_def fixed_zone_def
    by simp
qed

lemma dayEnd_fixed:
  "dayEnd (fixed_zone c) now i = (Day (now + c) - int i + 1) * msPerDay - c"
  by (simp add: dayEnd_msPerDay dayStart_fixed algebra_simps)

lemma in_day_fixed:
  "dayStart (fixed_zone c) now i \<le> t \<and> t < dayEnd (fixed_zone c) now i
     \<longleftrightarrow> Day (t + c) = Day (now + c) - int i"
  unfolding dayStart_fixed dayEnd_fixed Day_eq_iff [of "t + c"] by auto

lemma Day_dayStart_fixed:
  "Day (dayStart (fixed_zone c) now i) = Day (now + c) - int i + Day (- c)"
proof -
  have "((Day (now + c) - int i) * msPerDay - c) div msPerDay =
          (Day (now + c) - int i) + (- c) div msPerDay"
    using msPerDay_pos div_mult_self1 [of msPerDay "- c" "Day (now + c) - int i"] by simp
  then show ?thesis
    by (simp add: dayStart_fixed Day_def)
qed

lemma wb_date_fixed:
  "wb_date (weekly_entry (fixed_zone c) now ss i) =
     iso_date ((Day (now + c) - int i + Day (- c)) * msPerDay)"
proof -
  have "wb_date (weekly_entry (fixed_zone c) now ss i) = iso_date (dayStart (fixed_zone c) now i)"
    by (simp add: weekly_entry_def)
  also have "\<dots> = iso_date (Day (dayStart (fixed_zone c) now i) * msPerDay)"
    by (rule iso_date_Day)
  finally show ?thesis
    by (simp only: Day_dayStart_fixed)
qed

lemma daySessions_fixed:
  "daySessions (fixed_zone c) now ss i =
     filter (\<lambda>s. Day (s_createdAt s + c) = Day (now + c) - int i) ss"
  unfolding daySessions_def by (simp only: in_day_fixed)


lemma weekly_fixed:
  "length (getWeeklyActivity z now ss) = 7 \<and>
   (\<exists>d0. map wb_date (getWeeklyActivity (fixed_zone c) now ss) =
           map (\<lambda>k. iso_date ((d0 + int k) * msPerDay)) [0..<7]) \<and>
   (- msPerDay < c \<and> c \<le> 0 \<longrightarrow>
      map wb_date (getWeeklyActivity (fixed_zone c) now ss) =
        map (\<lambda>k. iso_date ((Day (LocalTime (fixed_zone c) now) - 6 + int k) * msPerDay)) [0..<7]) \<and>
   map wb_sessions (getWeeklyActivity (fixed_zone c) now ss) =
     map (\<lambda>k. length (filter (\<lambda>s. Day (LocalTime (fixed_zone c) (s_createdAt s)) =
                                    Day (LocalTime (fixed_zone c) now) - 6 + int k) ss)) [0..<7] \<and>
   map wb_time (getWeeklyActivity (fixed_zone c) now ss) =
     map (\<lambda>k. \<Sum>s\<leftarrow>filter (\<lambda>s. Day (LocalTime (fixed_zone c) (s_createdAt s)) =
                                  Day (LocalTime (fixed_zone c) now) - 6 + int k) ss.
                 case s_duration s of None \<Rightarrow> 0 | Some d \<Rightarrow> d) [0..<7]"
proof (intro conjI)
  show "length (getWeeklyActivity z now ss) = 7"
    by (simp add: getWeeklyActivity_unfold)
  have lt: "LocalTime (fixed_zone c) t = t + c" for t
    by (simp add: LocalTime_def fixed_zone_def)
  have labels: "map wb_date (getWeeklyActivity (fixed_zone c) now ss) =
          map (\<lambda>k. iso_date ((Day (now + c) - 6 + Day (- c) + int k) * msPerDay)) [0..<7]"
    by (simp add: getWeeklyActivity_unfold upt_7 wb_date_fixed algebra_simps)
  then show "\<exists>d0. map wb_date (getWeeklyActivity (fixed_zone c) now ss) =
           map (\<lambda>k. iso_date ((d0 + int k) * msPerDay)) [0..<7]"
    by blast
  show "- msPerDay < c \<and> c \<le> 0 \<longrightarrow>
      map wb_date (getWeeklyActivity (fixed_zone c) now ss) =
        map (\<lambda>k. iso_date ((Day (LocalTime (fixed_zone c) now) - 6 + int k) * msPerDay)) [0..<7]"
  proof
    assume "- msPerDay < c \<and> c \<le> 0"
    then have "Day (- c) = 0"
      by (intro Day_small) simp_all
    with labels show "map wb_date (getWeeklyActivity (fixed_zone c) now ss) =
        map (\<lambda>k. iso_date ((Day (LocalTime (fixed_zone c) now) - 6 + int k) * msPerDay)) [0..<7]"
      by (simp add: lt)
  qed
  show "map wb_sessions (getWeeklyActivity (fixed_zone c) now ss) =
     map (\<lambda>k. length (filter (\<lambda>s. Day (LocalTime (fixed_zone c) (s_createdAt s)) =
                                    Day (LocalTime (fixed_zone c) now) - 6 + int k) ss)) [0..<7]"
    by (simp add: getWeeklyActivity_unfold upt_7 weekly_entry_def daySessions_fixed lt)
  show "map wb_time (getWeeklyActivity (fixed_zone c) now ss) =
     map (\<lambda>k. \<Sum>s\<leftarrow>filter (\<lambda>s. Day (LocalTime (fixed_zone c) (s_createdAt s)) =
                                  Day (LocalTime (fixed_zone c) now) - 6 + int k) ss.
                 case s_duration s of None \<Rightarrow> 0 | Some d \<Rightarrow> d) [0..<7]"
    by (simp add: getWeeklyActivity_unfold upt_7 weekly_entry_def daySessions_fixed lt
        sum_duration_sum_list)
qed

lemma weekly_disjoint_fixed:
  assumes "i \<noteq> j"
  shows "{dayStart (fixed_zone c) now i ..< dayEnd (fixed_zone c) now i} \<inter>
         {dayStart (fixed_zone c) now j ..< dayEnd (fixed_zone c) now j} = {} \<and>
         sum_list (map wb_sessions (getWeeklyActivity (fixed_zone c) now ss)) =
           length (filter (\<lambda>s. dayStart (fixed_zone c) now 6 \<le> s_createdAt s \<and>
                                s_createdAt s < dayEnd (fixed_zone c) now 0) ss) \<and>
         sum_list (map wb_sessions (getWeeklyActivity (fixed_zone c) now ss)) \<le> length ss"
proof -
  let ?z = "fixed_zone c"
  let ?L = "Day (now + c)"
  have disj: "{dayStart ?z now i ..< dayEnd ?z now i} \<inter> {dayStart ?z now j ..< dayEnd ?z now j} = {}"
  proof (rule ccontr)
    assume "\<not> ?thesis"
    then obtain t where
      "t \<in> {dayStart ?z now i ..< dayEnd ?z now i} \<inter> {dayStart ?z now j ..< dayEnd ?z now j}"
      by blast
    then have "dayStart ?z now i \<le> t \<and> t < dayEnd ?z now i"
      and "dayStart ?z now j \<le> t \<and> t < dayEnd ?z now j"
      by simp_all
    then have "Day (t + c) = ?L - int i" and "Day (t + c) = ?L - int j"
      by (simp_all only: in_day_fixed)
    with assms show False
      by simp
  qed
  have "map wb_sessions (getWeeklyActivity ?z now ss) =
          map (\<lambda>k. length (filter (\<lambda>s. Day (s_createdAt s + c) = (?L - 6) + int k) ss)) [0..<7]"
    by (simp add: getWeeklyActivity_unfold upt_7 weekly_entry_def daySessions_fixed)
  then have "sum_list (map wb_sessions (getWeeklyActivity ?z now ss)) =
          length (filter (\<lambda>s. ?L - 6 \<le> Day (s_createdAt s + c) \<and>
                               Day (s_createdAt s + c) < (?L - 6) + int 7) ss)"
    by (simp only: count_by_day)
  also have "(\<lambda>s. ?L - 6 \<le> Day (s_createdAt s + c) \<and> Day (s_createdAt s + c) < (?L - 6) + int 7) =
             (\<lambda>s. dayStart ?z now 6 \<le> s_createdAt s \<and> s_createdAt s < dayEnd ?z now 0)"
    by (auto simp: fun_eq_iff Day_ge_iff Day_less_iff dayStart_fixed dayEnd_fixed algebra_simps)
  finally have total: "sum_list (map wb_sessions (getWeeklyActivity ?z now ss)) =
           length (filter (\<lambda>s. dayStart ?z now 6 \<le> s_createdAt s \<and>
                                s_createdAt s < dayEnd ?z now 0) ss)" .
  have "sum_list (map wb_sessions (getWeeklyActivity ?z now ss)) \<le> length ss"
    unfolding total by (rule length_filter_le)
  with disj total show ?thesis
    by blast
qed

subsection \<open>A zone that is steady over the week\<close>

lemma steady_fixed_zone: "steady (fixed_zone c) now c"
  by (simp add: steady_def steady_round_def fixed_zone_def)

lemma steady_roundD: "steady z now c \<Longrightarrow> i \<le> 6 \<Longrightarrow> steady_round z now c i"
  by (simp add: steady_def)

lemma steadyI:
  assumes "steady_round z now c 0" "steady_round z now c 1" "steady_round z now c 2"
    "steady_round z now c 3" "steady_round z now c 4" "steady_round z now c 5"
    "steady_round z now c 6"
  shows "steady z now c"
proof -
  have "{0..6::nat} = {0, 1, 2, 3, 4, 5, 6}"
    by auto
  with assms show ?thesis
    by (simp add: steady_def)
qed

text \<open>Every round of the loop computes what it computes with the offset fixed.\<close>

lemma dayStart_steady:
  assumes "steady z now c" and "i \<le> 6"
  shows "dayStart z now i = dayStart (fixed_zone c) now i"
proof -
  let ?t = "now - int i * msPerDay"
  from steady_roundD [OF assms] have a: "z ?t True = c"
    and b: "z (Day (LocalTime z ?t) * msPerDay) False = c"
    by (simp_all add: steady_round_def)
  have "dayStart z now i =
      Day (LocalTime z ?t) * msPerDay - z (Day (LocalTime z ?t) * msPerDay) False"
    by (simp only: dayStart_msPerDay local_midnight_def UTC_def)
  also have "\<dots> = Day (?t + c) * msPerDay - c"
    by (simp only: b) (simp add: LocalTime_def a)
  also have "\<dots> = dayStart (fixed_zone c) now i"
    by (simp add: dayStart_msPerDay local_midnight_def UTC_def LocalTime_def fixed_zone_def)
  finally show ?thesis .
qed

lemma dayEnd_steady:
  assumes "steady z now c" and "i \<le> 6"
  shows "dayEnd z now i = dayEnd (fixed_zone c) now i"
  by (simp add: dayEnd_def dayStart_steady [OF assms])

lemma weekly_entry_steady:
  assumes "steady z now c" and "i \<le> 6"
  shows "weekly_entry z now ss i = weekly_entry (fixed_zone c) now ss i"
  by (simp add: weekly_entry_def daySessions_def dayEnd_def dayStart_steady [OF assms])

lemma getWeeklyActivity_steady:
  assumes "steady z now c"
  shows "getWeeklyActivity z now ss = getWeeklyActivity (fixed_zone c) now ss"
  by (simp add: getWeeklyActivity_unfold weekly_entry_steady [OF assms])

lemma LocalTime_now_steady: "steady z now c \<Longrightarrow> LocalTime z now = now + c"
  using steady_roundD [of z now c 0] by (simp add: steady_round_def LocalTime_def)

lemma new_york_steady: "steady new_york india_now (- 18000000)"
  by (rule steadyI; code_simp)

lemma berlin_later_steady: "steady berlin berlin_later 3600000"
  by (rule steadyI; code_simp)

text \<open>At the end of summer time the first two rounds read different offsets.\<close>

lemma berlin_not_steady: "\<not> steady berlin berlin_now c"
proof
  assume s: "steady berlin berlin_now c"
  then have "berlin (berlin_now - int 0 * msPerDay) True = c"
    and "berlin (berlin_now - int 1 * msPerDay) True = c"
    using steady_roundD [of berlin berlin_now c 0] steady_roundD [of berlin berlin_now c 1]
    by (simp_all add: steady_round_def)
  moreover have "berlin (berlin_now - int 0 * msPerDay) True = 3600000"
    by code_simp
  moreover have "berlin (berlin_now - int 1 * msPerDay) True = 7200000"
    by code_simp
  ultimately show False
    by simp
qed

section \<open>The claims\<close>

subsection \<open>C1: the input collections\<close>

text \<open>
  Claim C1 says that computing the statistics leaves the sessions list and the
  chatMessages list as they were, element for element and in the same order. The
  handler calls \<^verbatim>\<open>sessions.sort(...)\<close>, which sorts the array itself, so the claim
  holds for the chat messages only. Amended claim C1, proved here: after the call the
  chatMessages list is unchanged, and the sessions list holds the same records with
  the same multiplicities, ordered by descending \<open>createdAt\<close>, the records of one
  instant in their former order.
\<close>

theorem sessions_sorted_in_place:
  "snd (snd (computeStats z now period sessions chatMessages)) = chatMessages \<and>
   mset (fst (snd (computeStats z now period sessions chatMessages))) = mset sessions \<and>
   sorted_wrt (\<lambda>a b. s_createdAt b \<le> s_createdAt a)
     (fst (snd (computeStats z now period sessions chatMessages))) \<and>
   (\<forall>t. filter (\<lambda>s. s_createdAt s = t)
          (fst (snd (computeStats z now period sessions chatMessages))) =
        filter (\<lambda>s. s_createdAt s = t) sessions)"
proof -
  have after: "snd (computeStats z now period sessions chatMessages) =
      (array_sort by_createdAt_desc sessions, chatMessages)"
    by (simp add: computeStats_def Let_def)
  show ?thesis
    unfolding after
    by (simp add: mset_array_sort newer_first_array_sort filter_array_sort_createdAt)
qed

text \<open>
  The claim as stated fails on two sessions given oldest first: the handler leaves the
  array newest first.
\<close>

theorem sessions_reordered_counterexample:
  "fst (snd (computeStats (fixed_zone 0) 5000 ''30d'' unsorted_pair [])) =
     [study ''OS'' (Some 45) None 2000, study ''DSA'' (Some 30) (Some 4) 1000] \<and>
   fst (snd (computeStats (fixed_zone 0) 5000 ''30d'' unsorted_pair [])) \<noteq> unsorted_pair"
  by code_simp

subsection \<open>C2: the average rating of a subject\<close>

text \<open>
  Claim C2 says that the \<open>averageRating\<close> of a subject is the mean of the non-null
  ratings among the sessions of the subject, and 0 when none is rated. The code divides
  the sum of the ratings by the number of all sessions of the subject, so a session
  without rating counts as a rating of 0. Amended claim C2, proved here: for a subject
  that occurs among the sessions, subjectStats has exactly one entry for it, whose
  \<open>averageRating\<close> is the sum of the ratings of the sessions of the subject (an absent
  rating counting 0) divided by the number of those sessions; this is the mean of the
  ratings when every session of the subject is rated, and 0 when none is.
\<close>

theorem subject_average_rating:
  assumes "subject \<in> set (map s_subject ss)"
  shows
    "map ss_averageRating
       (filter (\<lambda>e. ss_subject e = subject)
          (st_subjectStats (fst (computeStats z now period ss cs)))) =
       [Fin ((\<Sum>s\<leftarrow>filter (\<lambda>s. s_subject s = subject) ss.
                case s_rating s of None \<Rightarrow> 0 | Some r \<Rightarrow> r)
             / of_nat (length (filter (\<lambda>s. s_subject s = subject) ss)))] \<and>
     ((\<forall>s \<in> set (filter (\<lambda>s. s_subject s = subject) ss). s_rating s \<noteq> None) \<longrightarrow>
        map ss_averageRating
          (filter (\<lambda>e. ss_subject e = subject)
             (st_subjectStats (fst (computeStats z now period ss cs)))) =
          [Fin (spec_averageRating ss subject)]) \<and>
     ((\<forall>s \<in> set (filter (\<lambda>s. s_subject s = subject) ss). s_rating s = None) \<longrightarrow>
        map ss_averageRating
          (filter (\<lambda>e. ss_subject e = subject)
             (st_subjectStats (fst (computeStats z now period ss cs)))) = [Fin 0])"
proof -
  let ?F = "filter (\<lambda>s. s_subject s = subject) ss"
  let ?avg = "(\<Sum>s\<leftarrow>?F. case s_rating s of None \<Rightarrow> 0 | Some r \<Rightarrow> r) / of_nat (length ?F)"
  from assms have ne: "?F \<noteq> []"
    by (auto simp: filter_empty_conv)
  have "subject \<in> set (spread_set (map s_subject ss))"
    using assms by (simp only: set_spread_set)
  then have "filter (\<lambda>e. ss_subject e = subject)
       (st_subjectStats (fst (computeStats z now period ss cs))) = [subject_entry ss cs subject]"
    unfolding subjectStats_map by (intro entry_for_subject distinct_spread_set)
  then have main: "map ss_averageRating
       (filter (\<lambda>e. ss_subject e = subject)
          (st_subjectStats (fst (computeStats z now period ss cs)))) = [Fin ?avg]"
    using ne by (simp add: averageRating_entry average_nonempty)
  have rated: "?avg = spec_averageRating ss subject" if "\<forall>s \<in> set ?F. s_rating s \<noteq> None"
    using ne by (simp add: spec_averageRating_def Let_def map_filter_all_rated [OF that])
  have unrated: "?avg = 0" if "\<forall>s \<in> set ?F. s_rating s = None"
    by (simp only: sum_none_rated [OF that] div_0)
  show ?thesis
    using main rated unrated by simp
qed

text \<open>
  The theorem at the scenario of the spec: DSA has the ratings 4 and 2, and the one
  session of OS has none.
\<close>

theorem subject_average_rating_witness:
  "map ss_averageRating
     (filter (\<lambda>e. ss_subject e = ''DSA'')
        (st_subjectStats
           (fst (computeStats (fixed_zone 0) 5000 ''30d'' scenario_sessions scenario_messages)))) =
     [Fin 3] \<and>
   map ss_averageRating
     (filter (\<lambda>e. ss_subject e = ''OS'')
        (st_subjectStats
           (fst (computeStats (fixed_zone 0) 5000 ''30d'' scenario_sessions scenario_messages)))) =
     [Fin 0]"
proof -
  have dsa: "''DSA'' \<in> set (map s_subject scenario_sessions)"
    by code_simp
  have os: "''OS'' \<in> set (map s_subject scenario_sessions)"
    by code_simp
  have rated: "\<forall>s \<in> set (filter (\<lambda>s. s_subject s = ''DSA'') scenario_sessions). s_rating s \<noteq> None"
    by code_simp
  have unrated: "\<forall>s \<in> set (filter (\<lambda>s. s_subject s = ''OS'') scenario_sessions). s_rating s = None"
    by code_simp
  have mean: "spec_averageRating scenario_sessions ''DSA'' = 3"
    by code_simp
  from subject_average_rating [OF dsa, of "fixed_zone 0" 5000 "''30d''" scenario_messages] rated
  have "map ss_averageRating
     (filter (\<lambda>e. ss_subject e = ''DSA'')
        (st_subjectStats
           (fst (computeStats (fixed_zone 0) 5000 ''30d'' scenario_sessions scenario_messages)))) =
     [Fin (spec_averageRating scenario_sessions ''DSA'')]"
    by blast
  then have a: "map ss_averageRating
     (filter (\<lambda>e. ss_subject e = ''DSA'')
        (st_subjectStats
           (fst (computeStats (fixed_zone 0) 5000 ''30d'' scenario_sessions scenario_messages)))) =
     [Fin 3]"
    by (simp only: mean)
  from subject_average_rating [OF os, of "fixed_zone 0" 5000 "''30d''" scenario_messages] unrated
  have b: "map ss_averageRating
     (filter (\<lambda>e. ss_subject e = ''OS'')
        (st_subjectStats
           (fst (computeStats (fixed_zone 0) 5000 ''30d'' scenario_sessions scenario_messages)))) =
     [Fin 0]"
    by blast
  from a b show ?thesis
    by (rule conjI)
qed

text \<open>
  The claim as stated fails on two DSA sessions of which one is rated 4 and the other
  is not rated: the code answers 2, the mean of the non-null ratings is 4.
\<close>

theorem mean_of_rated_counterexample:
  "map ss_subject
     (st_subjectStats (fst (computeStats (fixed_zone 0) 5000 ''30d'' half_rated []))) =
     [''DSA''] \<and>
   map ss_averageRating
     (st_subjectStats (fst (computeStats (fixed_zone 0) 5000 ''30d'' half_rated []))) =
     [Fin 2] \<and>
   spec_averageRating half_rated ''DSA'' = 4"
  by code_simp

subsection \<open>C3: the average session length\<close>

text \<open>
  Claim C3 says that \<open>averageSessionLength\<close> is exactly the quotient of the total study
  time by the number of sessions, and 0 without sessions. The response carries
  \<^verbatim>\<open>Math.round(averageSessionLength)\<close>. Amended claim C3, proved here: the returned
  \<open>averageSessionLength\<close> is that quotient rounded to the nearest integer, a tie going
  up, when there is a session, and 0 when there is none.
\<close>

theorem average_session_length_rounded:
  "st_averageSessionLength (fst (computeStats z now period ss cs)) =
     (if 0 < st_totalSessions (fst (computeStats z now period ss cs))
      then Fin (of_int \<lfloor>st_totalStudyTime (fst (computeStats z now period ss cs))
                         / of_nat (st_totalSessions (fst (computeStats z now period ss cs)))
                         + 1 / 2\<rfloor>)
      else Fin 0)"
proof (cases "ss = []")
  case True
  then show ?thesis
    by (simp add: totals_of_stats) (simp add: computeStats_def Let_def Math_round_zero)
next
  case False
  then have "st_averageSessionLength (fst (computeStats z now period ss cs)) =
      Math_round (Fin (sum_duration ss / of_nat (length ss)))"
    by (simp add: computeStats_def Let_def js_div_of_nat)
  with False show ?thesis
    by (simp add: totals_of_stats Math_round_def)
qed

text \<open>
  The claim as stated fails on two sessions of 30 and 45 minutes: the quotient is 75/2
  and the response says 38.
\<close>

theorem exact_quotient_counterexample:
  "st_averageSessionLength (fst (computeStats (fixed_zone 0) 5000 ''30d'' odd_total [])) = Fin 38 \<and>
   st_totalStudyTime (fst (computeStats (fixed_zone 0) 5000 ''30d'' odd_total []))
     / of_nat (st_totalSessions (fst (computeStats (fixed_zone 0) 5000 ''30d'' odd_total [])))
     = 75 / 2"
  by code_simp

subsection \<open>C4: the seven buckets\<close>

text \<open>
  Claim C4 says that getWeeklyActivity returns exactly 7 buckets whose dates are
  consecutive calendar days ending with the day containing \<open>now\<close>, and that no session
  outside those 7 local calendar days is counted. The code steps back 24 hours at a
  time, takes a day to last 24 hours, and labels a bucket with the UTC date of its
  local midnight. Amended claim C4, proved here: getWeeklyActivity always returns
  exactly 7 buckets; when no transition of the zone of the server touches the week, so
  that the seven rounds of the loop all read one UTC offset, the date labels are 7
  consecutive calendar dates, and the k-th bucket counts, in \<open>sessions\<close> and in
  \<open>time\<close>, exactly the sessions created on the k-th of the 7 consecutive local calendar
  days (at that offset) that end with the day containing \<open>now\<close>, so that no session
  outside those days is counted; when that offset is zero or negative (and less than a
  day), the labels are the dates of those 7 local days, the last one the date of \<open>now\<close>.
\<close>

theorem weekly_steady_zone:
  "length (getWeeklyActivity z now ss) = 7 \<and>
   (steady z now c \<longrightarrow>
      (\<exists>d0. map wb_date (getWeeklyActivity z now ss) =
              map (\<lambda>k. iso_date ((d0 + int k) * msPerDay)) [0..<7]) \<and>
      (- msPerDay < c \<and> c \<le> 0 \<longrightarrow>
         map wb_date (getWeeklyActivity z now ss) =
           map (\<lambda>k. iso_date ((Day (LocalTime z now) - 6 + int k) * msPerDay)) [0..<7]) \<and>
      map wb_sessions (getWeeklyActivity z now ss) =
        map (\<lambda>k. length (filter (\<lambda>s. Day (s_createdAt s + c) =
                                       Day (LocalTime z now) - 6 + int k) ss)) [0..<7] \<and>
      map wb_time (getWeeklyActivity z now ss) =
        map (\<lambda>k. \<Sum>s\<leftarrow>filter (\<lambda>s. Day (s_createdAt s + c) =
                                     Day (LocalTime z now) - 6 + int k) ss.
                    case s_duration s of None \<Rightarrow> 0 | Some d \<Rightarrow> d) [0..<7])"
proof
  show "length (getWeeklyActivity z now ss) = 7"
    by (simp add: getWeeklyActivity_unfold)
  show "steady z now c \<longrightarrow>
      (\<exists>d0. map wb_date (getWeeklyActivity z now ss) =
              map (\<lambda>k. iso_date ((d0 + int k) * msPerDay)) [0..<7]) \<and>
      (- msPerDay < c \<and> c \<le> 0 \<longrightarrow>
         map wb_date (getWeeklyActivity z now ss) =
           map (\<lambda>k. iso_date ((Day (LocalTime z now) - 6 + int k) * msPerDay)) [0..<7]) \<and>
      map wb_sessions (getWeeklyActivity z now ss) =
        map (\<lambda>k. length (filter (\<lambda>s. Day (s_createdAt s + c) =
                                       Day (LocalTime z now) - 6 + int k) ss)) [0..<7] \<and>
      map wb_time (getWeeklyActivity z now ss) =
        map (\<lambda>k. \<Sum>s\<leftarrow>filter (\<lambda>s. Day (s_createdAt s + c) =
                                     Day (LocalTime z now) - 6 + int k) ss.
                    case s_duration s of None \<Rightarrow> 0 | Some d \<Rightarrow> d) [0..<7]"
  proof
    assume st: "steady z now c"
    have lt: "LocalTime (fixed_zone c) t = t + c" for t
      by (simp add: LocalTime_def fixed_zone_def)
    show "(\<exists>d0. map wb_date (getWeeklyActivity z now ss) =
              map (\<lambda>k. iso_date ((d0 + int k) * msPerDay)) [0..<7]) \<and>
      (- msPerDay < c \<and> c \<le> 0 \<longrightarrow>
         map wb_date (getWeeklyActivity z now ss) =
           map (\<lambda>k. iso_date ((Day (LocalTime z now) - 6 + int k) * msPerDay)) [0..<7]) \<and>
      map wb_sessions (getWeeklyActivity z now ss) =
        map (\<lambda>k. length (filter (\<lambda>s. Day (s_createdAt s + c) =
                                       Day (LocalTime z now) - 6 + int k) ss)) [0..<7] \<and>
      map wb_time (getWeeklyActivity z now ss) =
        map (\<lambda>k. \<Sum>s\<leftarrow>filter (\<lambda>s. Day (s_createdAt s + c) =
                                     Day (LocalTime z now) - 6 + int k) ss.
                    case s_duration s of None \<Rightarrow> 0 | Some d \<Rightarrow> d) [0..<7]"
      unfolding getWeeklyActivity_steady [OF st] LocalTime_now_steady [OF st]
      using weekly_fixed [of "fixed_zone c" now ss c]
      by (simp only: lt) blast
  qed
qed

text \<open>
  The theorem in New York at 01:30 local time of 2024-01-10, a week without transition,
  with the sessions of \<open>this_week\<close>: the labels end with the local date, and the two
  sessions of the week are counted on their days.
\<close>

theorem weekly_steady_zone_witness:
  "map wb_date (getWeeklyActivity new_york india_now this_week) =
     [''2024-01-04'', ''2024-01-05'', ''2024-01-06'', ''2024-01-07'', ''2024-01-08'',
      ''2024-01-09'', ''2024-01-10''] \<and>
   iso_date (LocalTime new_york india_now) = ''2024-01-10'' \<and>
   map wb_sessions (getWeeklyActivity new_york india_now this_week) = [0, 0, 0, 1, 0, 0, 1]"
proof -
  have west: "- msPerDay < - 18000000 \<and> - 18000000 \<le> (0 :: int)"
    by (simp add: msPerDay_def)
  have today: "Day (LocalTime new_york india_now) = 19732"
    by code_simp
  have "[iso_date (19726 * msPerDay), iso_date (19727 * msPerDay), iso_date (19728 * msPerDay),
         iso_date (19729 * msPerDay), iso_date (19730 * msPerDay), iso_date (19731 * msPerDay),
         iso_date (19732 * msPerDay)] =
     [''2024-01-04'', ''2024-01-05'', ''2024-01-06'', ''2024-01-07'', ''2024-01-08'',
      ''2024-01-09'', ''2024-01-10'']"
    by code_simp
  then have names: "map (\<lambda>k. iso_date ((19732 - 6 + int k) * msPerDay)) [0..<7] =
     [''2024-01-04'', ''2024-01-05'', ''2024-01-06'', ''2024-01-07'', ''2024-01-08'',
      ''2024-01-09'', ''2024-01-10'']"
    unfolding upt_7 by simp
  have date: "iso_date (LocalTime new_york india_now) = ''2024-01-10''"
    by code_simp
  have counts: "map wb_sessions (getWeeklyActivity new_york india_now this_week) =
      [0, 0, 0, 1, 0, 0, 1]"
    by code_simp
  from weekly_steady_zone [of new_york india_now this_week "- 18000000"] new_york_steady west
  have "map wb_date (getWeeklyActivity new_york india_now this_week) =
        map (\<lambda>k. iso_date ((Day (LocalTime new_york india_now) - 6 + int k) * msPerDay)) [0..<7]"
    by blast
  then have "map wb_date (getWeeklyActivity new_york india_now this_week) =
     [''2024-01-04'', ''2024-01-05'', ''2024-01-06'', ''2024-01-07'', ''2024-01-08'',
      ''2024-01-09'', ''2024-01-10'']"
    unfolding today names .
  with date counts show ?thesis
    by blast
qed

text \<open>
  The claim as stated fails in Berlin at 23:30 on the day summer time ends, a day of 25
  hours: 24 hours before \<open>now\<close> is 00:30 of the same day, so the last two buckets are
  the same day, and its label is the UTC date of its local midnight, the day before.
\<close>

theorem weekly_dates_counterexample:
  "map wb_date (getWeeklyActivity berlin berlin_now []) =
     [''2024-10-21'', ''2024-10-22'', ''2024-10-23'', ''2024-10-24'', ''2024-10-25'',
      ''2024-10-26'', ''2024-10-26''] \<and>
   iso_date (LocalTime berlin berlin_now) = ''2024-10-27''"
  by code_simp

text \<open>
  The label alone, in a zone without daylight saving: in India the local midnight lies
  in the previous UTC day, and every label is one day before the local day of its
  bucket.
\<close>

lemma india_labels_one_day_early:
  "map wb_date (getWeeklyActivity india india_now []) =
     [''2024-01-03'', ''2024-01-04'', ''2024-01-05'', ''2024-01-06'', ''2024-01-07'',
      ''2024-01-08'', ''2024-01-09''] \<and>
   iso_date (LocalTime india india_now) = ''2024-01-10''"
  by code_simp

subsection \<open>C5: the recent sessions\<close>

text \<open>
  Claim C5: \<open>recentSessions\<close> consists of exactly the min(5, number of sessions)
  sessions with the greatest \<open>createdAt\<close>, ordered descending by \<open>createdAt\<close>. It has
  that length, it is ordered so, it is taken from the input with multiplicities, and
  no session left out is newer than a session in it.
\<close>

theorem recent_sessions_newest:
  "length (st_recentSessions (fst (computeStats z now period ss cs))) = min 5 (length ss) \<and>
   sorted_wrt (\<lambda>a b. s_createdAt b \<le> s_createdAt a)
     (st_recentSessions (fst (computeStats z now period ss cs))) \<and>
   mset (st_recentSessions (fst (computeStats z now period ss cs))) \<subseteq># mset ss \<and>
   (\<forall>x \<in># mset ss - mset (st_recentSessions (fst (computeStats z now period ss cs))).
      \<forall>y \<in> set (st_recentSessions (fst (computeStats z now period ss cs))).
        s_createdAt x \<le> s_createdAt y)"
proof -
  let ?xs = "array_sort by_createdAt_desc ss"
  have split: "mset ss = mset (take 5 ?xs) + mset (drop 5 ?xs)"
    by (metis append_take_drop_id mset_append mset_array_sort)
  have order: "\<forall>y \<in> set (take 5 ?xs). \<forall>x \<in> set (drop 5 ?xs). s_createdAt x \<le> s_createdAt y"
    and sorted: "newer_first (take 5 ?xs)"
    using newer_first_array_sort [of ss]
      sorted_wrt_append [of "\<lambda>a b. s_createdAt b \<le> s_createdAt a" "take 5 ?xs" "drop 5 ?xs"]
    by simp_all
  have rest: "mset ss - mset (take 5 ?xs) = mset (drop 5 ?xs)"
    using split by simp
  have "length (take 5 ?xs) = min 5 (length ss)"
    by (simp add: length_array_sort min.commute)
  moreover have "mset (take 5 ?xs) \<subseteq># mset ss"
    using split by simp
  moreover have "\<forall>x \<in># mset ss - mset (take 5 ?xs). \<forall>y \<in> set (take 5 ?xs).
      s_createdAt x \<le> s_createdAt y"
    unfolding rest using order by auto
  ultimately show ?thesis
    unfolding recentSessions_take using sorted by blast
qed

text \<open>With seven sessions, the five most recent are returned, newest first.\<close>

theorem recent_sessions_newest_witness:
  "length (st_recentSessions (fst (computeStats (fixed_zone 0) 9000 ''30d'' seven_sessions []))) = 5 \<and>
   map s_createdAt (st_recentSessions (fst (computeStats (fixed_zone 0) 9000 ''30d'' seven_sessions [])))
     = [7000, 6000, 5000, 4000, 3000] \<and>
   s_createdAt (study ''DSA'' (Some 40) None 2000) \<le> s_createdAt (study ''AI'' (Some 60) None 3000)"
proof -
  let ?recent = "st_recentSessions (fst (computeStats (fixed_zone 0) 9000 ''30d'' seven_sessions []))"
  have recent: "?recent =
      [study ''CN'' (Some 30) None 7000, study ''SE'' (Some 50) None 6000,
       study ''DBMS'' (Some 70) None 5000, study ''DSA'' (Some 10) None 4000,
       study ''AI'' (Some 60) None 3000]"
    by code_simp
  have left: "study ''DSA'' (Some 40) None 2000 \<in># mset seven_sessions - mset ?recent"
    unfolding recent by (simp add: seven_sessions_def study_def)
  have kept: "study ''AI'' (Some 60) None 3000 \<in> set ?recent"
    unfolding recent by simp
  note t = recent_sessions_newest [of "fixed_zone 0" 9000 "''30d''" seven_sessions "[]"]
  from t have "length ?recent = min 5 (length seven_sessions)"
    by blast
  then have n: "length ?recent = 5"
    by (simp add: seven_sessions_def)
  have dates: "map s_createdAt ?recent = [7000, 6000, 5000, 4000, 3000]"
    unfolding recent by (simp add: study_def)
  from t left kept
  have "s_createdAt (study ''DSA'' (Some 40) None 2000) \<le> s_createdAt (study ''AI'' (Some 60) None 3000)"
    by blast
  with n dates show ?thesis
    by blast
qed

subsection \<open>C6: the total study time\<close>

text \<open>
  Claim C6: \<open>totalStudyTime\<close> is the sum over all sessions of the duration, a session
  without duration contributing 0.
\<close>

theorem total_study_time_sum:
  "st_totalStudyTime (fst (computeStats z now period sessions chatMessages)) =
     (\<Sum>s\<leftarrow>sessions. case s_duration s of None \<Rightarrow> 0 | Some d \<Rightarrow> d)"
proof -
  have "st_totalStudyTime (fst (computeStats z now period sessions chatMessages)) =
      sum_duration sessions"
    by (rule totals_of_stats)
  then show ?thesis
    by (simp only: sum_duration_sum_list)
qed

subsection \<open>C7: no NaN in the output\<close>

text \<open>
  Claim C7: no division of the aggregation puts NaN or an error into an output field,
  and a quotient whose divisor is 0 comes out as 0. The three quotients are
  \<open>averageSessionLength\<close>, the \<open>averageRating\<close> of a subject entry (for any subject, also
  one without sessions) and the \<open>averageRating\<close> of the subject route: each is a finite
  number for every input, and each is 0 when its divisor is 0; the \<open>averageRating\<close> of
  a subject of which no session is rated is 0 as well.
\<close>

theorem no_nan_in_output:
  "(\<exists>q. st_averageSessionLength (fst (computeStats z now period ss cs)) = Fin q) \<and>
   (ss = [] \<longrightarrow> st_averageSessionLength (fst (computeStats z now period ss cs)) = Fin 0) \<and>
   (\<forall>e \<in> set (st_subjectStats (fst (computeStats z now period ss cs))).
      \<exists>q. ss_averageRating e = Fin q) \<and>
   (\<exists>q. ss_averageRating (subject_entry ss cs subject) = Fin q) \<and>
   (filter (\<lambda>s. s_subject s = subject) ss = [] \<longrightarrow>
      ss_averageRating (subject_entry ss cs subject) = Fin 0) \<and>
   ((\<forall>s \<in> set (filter (\<lambda>s. s_subject s = subject) ss). s_rating s = None) \<longrightarrow>
      ss_averageRating (subject_entry ss cs subject) = Fin 0) \<and>
   (\<exists>q. sp_averageRating (subjectProgress subject ss) = Fin q) \<and>
   (ss = [] \<longrightarrow> sp_averageRating (subjectProgress subject ss) = Fin 0)"
proof (intro conjI)
  show "\<exists>q. st_averageSessionLength (fst (computeStats z now period ss cs)) = Fin q"
    by (simp add: computeStats_def Let_def js_div_def Math_round_def)
  show "ss = [] \<longrightarrow> st_averageSessionLength (fst (computeStats z now period ss cs)) = Fin 0"
    by (simp add: computeStats_def Let_def Math_round_zero)
  have fin: "\<exists>q. ss_averageRating (subject_entry ss cs x) = Fin q" for x
    unfolding averageRating_entry by (rule average_finite)
  then show "\<forall>e \<in> set (st_subjectStats (fst (computeStats z now period ss cs))).
      \<exists>q. ss_averageRating e = Fin q"
    unfolding subjectStats_map by auto
  show "\<exists>q. ss_averageRating (subject_entry ss cs subject) = Fin q"
    by (rule fin)
  show "filter (\<lambda>s. s_subject s = subject) ss = [] \<longrightarrow>
      ss_averageRating (subject_entry ss cs subject) = Fin 0"
    unfolding averageRating_entry using average_empty by simp
  show "(\<forall>s \<in> set (filter (\<lambda>s. s_subject s = subject) ss). s_rating s = None) \<longrightarrow>
      ss_averageRating (subject_entry ss cs subject) = Fin 0"
  proof
    let ?F = "filter (\<lambda>s. s_subject s = subject) ss"
    assume none: "\<forall>s \<in> set ?F. s_rating s = None"
    show "ss_averageRating (subject_entry ss cs subject) = Fin 0"
    proof (cases "?F = []")
      case True
      then show ?thesis
        unfolding averageRating_entry using average_empty by simp
    next
      case False
      then show ?thesis
        unfolding averageRating_entry
        by (simp add: average_nonempty sum_none_rated [OF none])
    qed
  qed
  obtain q where q: "js_or_zero (js_div (sum_rating ss) (of_nat (length ss))) = Fin q"
    using average_finite by blast
  then have "sp_averageRating (subjectProgress subject ss) =
      Fin (of_int \<lfloor>q * 10 + 1 / 2\<rfloor> / 10)"
    by (simp only: subjectProgress_def Let_def round_to_tenth subject_progress.simps)
  then show "\<exists>q. sp_averageRating (subjectProgress subject ss) = Fin q"
    by (rule exI)
  show "ss = [] \<longrightarrow> sp_averageRating (subjectProgress subject ss) = Fin 0"
    using average_empty
    by (simp add: subjectProgress_def Let_def js_times_def Math_round_zero js_over_def js_div_def)
qed

text \<open>
  The theorem without any session, where every divisor is 0, and at the scenario of
  the spec, where the one session of OS is not rated.
\<close>

theorem no_nan_in_output_witness:
  "st_averageSessionLength (fst (computeStats (fixed_zone 0) 5000 ''30d'' [] [])) = Fin 0 \<and>
   ss_averageRating (subject_entry [] [] ''DSA'') = Fin 0 \<and>
   sp_averageRating (subjectProgress ''DSA'' []) = Fin 0 \<and>
   ss_averageRating (subject_entry scenario_sessions scenario_messages ''OS'') = Fin 0"
proof -
  note e = no_nan_in_output [of "fixed_zone 0" 5000 "''30d''" "[]" "[]" "''DSA''"]
  note s = no_nan_in_output
    [of "fixed_zone 0" 5000 "''30d''" scenario_sessions scenario_messages "''OS''"]
  have unrated: "\<forall>s \<in> set (filter (\<lambda>s. s_subject s = ''OS'') scenario_sessions). s_rating s = None"
    by code_simp
  from e have "st_averageSessionLength (fst (computeStats (fixed_zone 0) 5000 ''30d'' [] [])) = Fin 0"
    and "ss_averageRating (subject_entry [] [] ''DSA'') = Fin 0"
    and "sp_averageRating (subjectProgress ''DSA'' []) = Fin 0"
    by simp_all
  moreover from s unrated
  have "ss_averageRating (subject_entry scenario_sessions scenario_messages ''OS'') = Fin 0"
    by blast
  ultimately show ?thesis
    by blast
qed

subsection \<open>C8: empty inputs\<close>

text \<open>
  Claim C8: when both input collections are empty, the response has
  \<open>totalStudyTime\<close> 0, \<open>totalSessions\<close> 0, \<open>totalQuestions\<close> 0, \<open>subjectsStudied\<close> 0,
  \<open>averageSessionLength\<close> 0, an empty \<open>subjectStats\<close> and an empty \<open>recentSessions\<close>.
\<close>

theorem empty_inputs:
  "st_totalStudyTime (fst (computeStats z now period [] [])) = 0 \<and>
   st_totalSessions (fst (computeStats z now period [] [])) = 0 \<and>
   st_totalQuestions (fst (computeStats z now period [] [])) = 0 \<and>
   st_subjectsStudied (fst (computeStats z now period [] [])) = 0 \<and>
   st_averageSessionLength (fst (computeStats z now period [] [])) = Fin 0 \<and>
   st_subjectStats (fst (computeStats z now period [] [])) = [] \<and>
   st_recentSessions (fst (computeStats z now period [] [])) = []"
proof -
  have "spread_set (map s_subject []) = []"
    by (simp add: spread_set_def)
  moreover have "sum_duration [] = 0"
    by (simp add: sum_duration_def)
  ultimately show ?thesis
    by (simp add: computeStats_def Let_def Math_round_zero)
qed

subsection \<open>C9: the subjects partition the sessions\<close>

text \<open>
  Claim C9: \<open>subjectStats\<close> has exactly one entry per distinct subject of the sessions,
  every entry counts at least one session (the sessions of its subject), the session
  counts of the entries add up to \<open>totalSessions\<close>, and their total times add up to
  \<open>totalStudyTime\<close>.
\<close>

theorem subject_stats_partition:
  "distinct (map ss_subject (st_subjectStats (fst (computeStats z now period ss cs)))) \<and>
   set (map ss_subject (st_subjectStats (fst (computeStats z now period ss cs)))) =
     set (map s_subject ss) \<and>
   (\<forall>e \<in> set (st_subjectStats (fst (computeStats z now period ss cs))).
      1 \<le> ss_sessions e \<and>
      ss_sessions e = length (filter (\<lambda>s. s_subject s = ss_subject e) ss)) \<and>
   sum_list (map ss_sessions (st_subjectStats (fst (computeStats z now period ss cs)))) =
     st_totalSessions (fst (computeStats z now period ss cs)) \<and>
   sum_list (map ss_totalTime (st_subjectStats (fst (computeStats z now period ss cs)))) =
     st_totalStudyTime (fst (computeStats z now period ss cs))"
proof -
  let ?ds = "spread_set (map s_subject ss)"
  let ?es = "map (subject_entry ss cs) ?ds"
  have d: "distinct ?ds" and s: "set ?ds = set (map s_subject ss)"
    by (simp_all add: distinct_spread_set set_spread_set)
  have keys: "s_subject ` set ss \<subseteq> set ?ds"
    using s by simp
  have names: "map ss_subject ?es = ?ds"
    by (rule subject_of_entries)
  have each: "\<forall>e \<in> set ?es. 1 \<le> ss_sessions e \<and>
      ss_sessions e = length (filter (\<lambda>s. s_subject s = ss_subject e) ss)"
  proof
    fix e assume "e \<in> set ?es"
    then obtain subj where subj: "subj \<in> set ?ds" and e: "e = subject_entry ss cs subj"
      by auto
    from subj s obtain x where "x \<in> set ss" "s_subject x = subj"
      by auto
    then have "filter (\<lambda>s. s_subject s = subj) ss \<noteq> []"
      by (auto simp: filter_empty_conv)
    then have "1 \<le> length (filter (\<lambda>s. s_subject s = subj) ss)"
      by (simp add: Suc_le_eq)
    then show "1 \<le> ss_sessions e \<and>
      ss_sessions e = length (filter (\<lambda>s. s_subject s = ss_subject e) ss)"
      by (simp add: e subject_entry_def Let_def)
  qed
  have "sum_list (map ss_sessions ?es) =
          (\<Sum>d\<leftarrow>?ds. \<Sum>x\<leftarrow>filter (\<lambda>x. s_subject x = d) ss. Suc 0)"
    by (simp add: subject_entry_def Let_def comp_def sum_list_ones)
  also have "\<dots> = (\<Sum>x\<leftarrow>ss. Suc 0)"
    using d keys by (rule sum_list_by_key)
  finally have count: "sum_list (map ss_sessions ?es) = length ss"
    by (simp add: sum_list_ones)
  have "sum_list (map ss_totalTime ?es) =
          (\<Sum>d\<leftarrow>?ds. \<Sum>x\<leftarrow>filter (\<lambda>x. s_subject x = d) ss.
              case s_duration x of None \<Rightarrow> 0 | Some m \<Rightarrow> m)"
    by (simp add: subject_entry_def Let_def comp_def sum_duration_sum_list)
  also have "\<dots> = (\<Sum>x\<leftarrow>ss. case s_duration x of None \<Rightarrow> 0 | Some m \<Rightarrow> m)"
    using d keys by (rule sum_list_by_key)
  finally have time: "sum_list (map ss_totalTime ?es) = sum_duration ss"
    by (simp add: sum_duration_sum_list)
  show ?thesis
    unfolding subjectStats_map totals_of_stats names
    using d s each count time by blast
qed

text \<open>The theorem at the scenario of the spec: two DSA sessions and one OS session.\<close>

theorem subject_stats_partition_witness:
  "map ss_subject (st_subjectStats
      (fst (computeStats (fixed_zone 0) 5000 ''30d'' scenario_sessions scenario_messages))) =
     [''DSA'', ''OS''] \<and>
   map ss_sessions (st_subjectStats
      (fst (computeStats (fixed_zone 0) 5000 ''30d'' scenario_sessions scenario_messages))) =
     [2, 1] \<and>
   1 \<le> ss_sessions (subject_entry scenario_sessions scenario_messages ''OS'') \<and>
   st_totalSessions
      (fst (computeStats (fixed_zone 0) 5000 ''30d'' scenario_sessions scenario_messages)) = 3"
proof -
  let ?r = "fst (computeStats (fixed_zone 0) 5000 ''30d'' scenario_sessions scenario_messages)"
  have names: "map ss_subject (st_subjectStats ?r) = [''DSA'', ''OS'']"
    by code_simp
  have counts: "map ss_sessions (st_subjectStats ?r) = [2, 1]"
    by code_simp
  have mem: "subject_entry scenario_sessions scenario_messages ''OS'' \<in> set (st_subjectStats ?r)"
    by code_simp
  note t = subject_stats_partition
    [of "fixed_zone 0" 5000 "''30d''" scenario_sessions scenario_messages]
  from t mem have one: "1 \<le> ss_sessions (subject_entry scenario_sessions scenario_messages ''OS'')"
    by blast
  from t have "sum_list (map ss_sessions (st_subjectStats ?r)) = st_totalSessions ?r"
    by blast
  then have "st_totalSessions ?r = 3"
    unfolding counts by simp
  with names counts one show ?thesis
    by blast
qed

subsection \<open>C10: a session is counted once\<close>

text \<open>
  Claim C10 says that the 7 day intervals are pairwise disjoint half-open intervals, so
  that the session counts of the buckets add up to the number of sessions created
  within the 7-day span, which is at most the number of input sessions. The intervals
  are \<open>[dayStart, dayStart + 24h)\<close> for the local midnights of \<open>now - i * 24h\<close>, which
  are distinct days only while a local day lasts 24 hours. Amended claim C10, proved
  here: when no transition of the zone of the server touches the week, so that the
  seven rounds of the loop all read one UTC offset, the intervals of two different
  rounds of the loop are disjoint, and the session counts of the 7 buckets add up to
  the number of sessions created from the start of the first interval to the end of
  the last, which is at most the number of input sessions.
\<close>

theorem weekly_disjoint_steady_zone:
  assumes "steady z now c" and "i \<le> 6" and "j \<le> 6" and "i \<noteq> j"
  shows "{dayStart z now i ..< dayEnd z now i} \<inter> {dayStart z now j ..< dayEnd z now j} = {} \<and>
         sum_list (map wb_sessions (getWeeklyActivity z now ss)) =
           length (filter (\<lambda>s. dayStart z now 6 \<le> s_createdAt s \<and>
                                s_createdAt s < dayEnd z now 0) ss) \<and>
         sum_list (map wb_sessions (getWeeklyActivity z now ss)) \<le> length ss"
proof -
  have six: "(6::nat) \<le> 6" and zero: "(0::nat) \<le> 6"
    by simp_all
  show ?thesis
    unfolding getWeeklyActivity_steady [OF assms(1)]
      dayStart_steady [OF assms(1) assms(2)] dayEnd_steady [OF assms(1) assms(2)]
      dayStart_steady [OF assms(1) assms(3)] dayEnd_steady [OF assms(1) assms(3)]
      dayStart_steady [OF assms(1) six] dayEnd_steady [OF assms(1) zero]
    by (rule weekly_disjoint_fixed [OF assms(4)])
qed

text \<open>
  The theorem in Berlin ten days after the end of summer time, for today and yesterday:
  of three sessions, the one made a second ago and the one made three days ago are
  counted, the one of 2024-10-27 is not.
\<close>

theorem weekly_disjoint_steady_zone_witness:
  "{dayStart berlin berlin_later 0 ..< dayEnd berlin berlin_later 0} \<inter>
   {dayStart berlin berlin_later 1 ..< dayEnd berlin berlin_later 1} = {} \<and>
   sum_list (map wb_sessions (getWeeklyActivity berlin berlin_later november_week)) = 2 \<and>
   length november_week = 3"
proof -
  have le: "(0::nat) \<le> 6" "(1::nat) \<le> 6" and ne: "(0::nat) \<noteq> 1"
    by simp_all
  have a: "sum_list (map wb_sessions (getWeeklyActivity berlin berlin_later november_week)) = 2"
    by code_simp
  have b: "length november_week = 3"
    by (simp add: november_week_def)
  from weekly_disjoint_steady_zone [OF berlin_later_steady le ne, of november_week]
  have "{dayStart berlin berlin_later 0 ..< dayEnd berlin berlin_later 0} \<inter>
   {dayStart berlin berlin_later 1 ..< dayEnd berlin berlin_later 1} = {}"
    by blast
  with a b show ?thesis
    by blast
qed

text \<open>
  The claim as stated fails in Berlin at 23:30 on the day summer time ends: the rounds
  \<open>i = 1\<close> and \<open>i = 0\<close> of the loop have the same interval, and the one session made at
  noon of that day is counted in both buckets.
\<close>

theorem weekly_double_count_counterexample:
  "map wb_sessions (getWeeklyActivity berlin berlin_now [noon_session]) = [0, 0, 0, 0, 0, 1, 1] \<and>
   sum_list (map wb_sessions (getWeeklyActivity berlin berlin_now [noon_session])) = 2 \<and>
   length [noon_session] = 1 \<and>
   dayStart berlin berlin_now 1 = dayStart berlin berlin_now 0 \<and>
   dayEnd berlin berlin_now 1 = dayEnd berlin berlin_now 0"
  by code_simp

end
